theory Spec2Isabelle
  imports Complex_Main "HOL-Library.Multiset"
begin

section \<open>Data model\<close>

text \<open>
  The point group of \<^verbatim>\<open>grendel/symmetry/point_group.py\<close>. Symmetry operations are
  mutable Python objects that the group shares with its caller, so they live in an
  explicit store (object identity is a natural number) and the group holds a list of
  identities. The classes of operations (\<^verbatim>\<open>IdentityOperation\<close>, \<^verbatim>\<open>Rotation\<close>, ...)
  become a tag.
\<close>

datatype kind = Identity | Rotation | ImproperRotation | Reflection | Inversion

type_synonym vec = "real \<times> real \<times> real"

record 'm operation =
  op_kind :: kind
  op_n :: int
  op_exponent :: int
  op_axis :: vec
  op_matrix :: 'm
  op_name :: "string option"
  op_inverse :: "nat option"
  op_principal_reflection :: bool

text \<open>
  What the code takes from the modules it imports: the product of two matrices, the
  tolerance predicates of \<^verbatim>\<open>SymmetryOperation\<close> (\<^verbatim>\<open>is_same_matrix\<close>, \<^verbatim>\<open>is_same_axis\<close>,
  \<^verbatim>\<open>is_perpendicular\<close>), the method \<^verbatim>\<open>is_dihedral\<close> of a reflection (it looks at the
  operations of its group, given here in their current order) and the order \<^verbatim>\<open>__lt__\<close>
  of operations. They are parameters of every definition below.
\<close>

record 'm collab =
  mat_mul :: "'m \<Rightarrow> 'm \<Rightarrow> 'm"
  is_same_matrix :: "'m \<Rightarrow> 'm \<Rightarrow> bool"
  is_same_axis :: "vec \<Rightarrow> vec \<Rightarrow> bool"
  is_perpendicular :: "vec \<Rightarrow> vec \<Rightarrow> bool"
  is_dihedral :: "'m operation list \<Rightarrow> 'm operation \<Rightarrow> bool"
  op_lt :: "'m operation \<Rightarrow> 'm operation \<Rightarrow> bool"

text \<open>
  Every \<^verbatim>\<open>GroupTheoryError\<close> the module raises, told apart by its message, and the
  built-in exceptions that the expressions of the module can raise.
\<close>

datatype error =
    MissingIdentity
  | GroupNotClosed
  | NonUniqueInverse
  | ClassesNotDisjoint
  | UnclassifiableGroup
  | OperationNotFound
  | TypeError
  | ZeroDivisionError
  | IndexError

text \<open>
  A conjugacy class is the list of its elements. The fields of \<^verbatim>\<open>PointGroup\<close>;
  \<open>identity_cache\<close> is the memo of the cached property \<^verbatim>\<open>identity_element\<close>.
\<close>

record 'm point_group =
  store :: "nat \<Rightarrow> 'm operation"
  operations :: "nat list"
  classes :: "nat list list"
  pg_name :: "string option"
  generate_elements :: bool
  identity_cache :: "nat option"

section \<open>Python built-ins\<close>

definition digit_char :: "nat \<Rightarrow> char" where
  "digit_char d = ''0123456789'' ! d"

function str_nat :: "nat \<Rightarrow> string" where
  "str_nat k = (if k < 10 then [digit_char k] else str_nat (k div 10) @ [digit_char (k mod 10)])"
  by pat_completeness auto
termination
  by (relation "measure id") auto

declare str_nat.simps [simp del]

definition str_int :: "int \<Rightarrow> string" where
  "str_int i = (if i < 0 then CHR ''-'' # str_nat (nat (- i)) else str_nat (nat i))"

text \<open>\<^verbatim>\<open>"'" * k\<close>; a negative count gives the empty string.\<close>

definition primes :: "nat \<Rightarrow> string" where
  "primes k = replicate k (CHR 0x27)"

text \<open>
  \<^verbatim>\<open>list.sort\<close> and \<^verbatim>\<open>sorted\<close> compare with \<^verbatim>\<open><\<close> only and are stable: an element
  moves in front of the elements that are smaller than it, and stays behind the others.
\<close>

fun insort_lt :: "('a \<Rightarrow> 'a \<Rightarrow> bool) \<Rightarrow> 'a \<Rightarrow> 'a list \<Rightarrow> 'a list" where
  "insort_lt lt x [] = [x]"
| "insort_lt lt x (y # ys) = (if lt y x then y # insort_lt lt x ys else x # y # ys)"

definition sort_lt :: "('a \<Rightarrow> 'a \<Rightarrow> bool) \<Rightarrow> 'a list \<Rightarrow> 'a list" where
  "sort_lt lt xs = foldr (insort_lt lt) xs []"

text \<open>\<^verbatim>\<open>itertools.groupby\<close>: the maximal runs of consecutive elements with equal keys.\<close>

function groupby :: "('a \<Rightarrow> 'k) \<Rightarrow> 'a list \<Rightarrow> 'a list list" where
  "groupby f [] = []"
| "groupby f (x # xs) =
     (x # takeWhile (\<lambda>y. f y = f x) xs) # groupby f (dropWhile (\<lambda>y. f y = f x) xs)"
  by pat_completeness auto
termination
  by (relation "measure (\<lambda>(f, xs). length xs)") (auto simp: length_dropWhile_le less_Suc_eq_le)

section \<open>Properties and lookups of the group\<close>

definition kind_of :: "'m point_group \<Rightarrow> nat \<Rightarrow> kind" where
  "kind_of pg i = op_kind (store pg i)"

text \<open>
  \<^verbatim>\<open>identity_element\<close> (lines 83-88), a cached property: the first access searches the
  operations in their order of that moment, later accesses return the memo.
\<close>

definition identity_element :: "'m point_group \<Rightarrow> error + (nat \<times> 'm point_group)" where
  "identity_element pg =
     (case identity_cache pg of
        Some i \<Rightarrow> Inr (i, pg)
      | None \<Rightarrow>
          (case find (\<lambda>i. kind_of pg i = Identity) (operations pg) of
             None \<Rightarrow> Inl MissingIdentity
           | Some i \<Rightarrow> Inr (i, pg\<lparr>identity_cache := Some i\<rparr>)))"

text \<open>
  \<^verbatim>\<open>rotations\<close>, \<^verbatim>\<open>improper_rotations\<close>, \<^verbatim>\<open>reflections\<close> (lines 90-112) are cached
  too, but \<^verbatim>\<open>_name_operations\<close> clears their memos right after it sorts the operations
  (lines 234-236) and nothing else changes the list, so each access sees the operations
  of that kind in the current order.
\<close>

definition rotations :: "'m point_group \<Rightarrow> nat list" where
  "rotations pg = filter (\<lambda>i. kind_of pg i = Rotation) (operations pg)"

definition improper_rotations :: "'m point_group \<Rightarrow> nat list" where
  "improper_rotations pg = filter (\<lambda>i. kind_of pg i = ImproperRotation) (operations pg)"

definition reflections :: "'m point_group \<Rightarrow> nat list" where
  "reflections pg = filter (\<lambda>i. kind_of pg i = Reflection) (operations pg)"

definition inversion :: "'m point_group \<Rightarrow> nat option" where
  "inversion pg = find (\<lambda>i. kind_of pg i = Inversion) (operations pg)"

text \<open>
  Modelled from the spec: \<^verbatim>\<open>SymmetryOperation.__eq__\<close> is missing from the sources; the
  spec gives "tolerance-based equality (matrix comparison at 1e-4)".
\<close>

definition op_eq :: "'m collab \<Rightarrow> 'm point_group \<Rightarrow> nat \<Rightarrow> nat \<Rightarrow> bool" where
  "op_eq c pg a b = is_same_matrix c (op_matrix (store pg a)) (op_matrix (store pg b))"

text \<open>\<^verbatim>\<open>x in list\<close> and \<^verbatim>\<open>list.index(x)\<close> of Python: identity first, then \<^verbatim>\<open>==\<close>.\<close>

definition py_matches :: "'m collab \<Rightarrow> 'm point_group \<Rightarrow> nat \<Rightarrow> nat \<Rightarrow> bool" where
  "py_matches c pg x y = (y = x \<or> op_eq c pg y x)"

text \<open>\<^verbatim>\<open>element_for\<close> (lines 143-157).\<close>

definition element_for ::
  "'m collab \<Rightarrow> 'm point_group \<Rightarrow> nat \<Rightarrow> error + (nat \<times> 'm point_group)" where
  "element_for c pg x =
     (case find (py_matches c pg x) (operations pg) of
        Some y \<Rightarrow> Inr (y, pg)
      | None \<Rightarrow>
          if generate_elements pg then Inr (x, pg\<lparr>operations := operations pg @ [x]\<rparr>)
          else Inl OperationNotFound)"

text \<open>
  \<^verbatim>\<open>element_with_matrix\<close> (lines 159-170). The sorted list of matrices of lines 166-170
  only goes into the message of the error.
\<close>

definition element_with_matrix :: "'m collab \<Rightarrow> 'm point_group \<Rightarrow> 'm \<Rightarrow> error + nat" where
  "element_with_matrix c pg mat =
     (case find (\<lambda>i. is_same_matrix c (op_matrix (store pg i)) mat) (operations pg) of
        Some i \<Rightarrow> Inr i
      | None \<Rightarrow> Inl GroupNotClosed)"

text \<open>\<^verbatim>\<open>num_C_n_axes\<close> (lines 173-176).\<close>

definition num_C_n_axes :: "'m point_group \<Rightarrow> int \<Rightarrow> nat" where
  "num_C_n_axes pg k =
     length (filter (\<lambda>i. op_n (store pg i) = k \<and> op_exponent (store pg i) = 1) (rotations pg))"

text \<open>
  Modelled from the spec: \<^verbatim>\<open>SymmetryOperation.__mul__\<close> is missing from the sources. The
  spec gives a "composition operator returning an Operation" of the group, the
  "lookup-or-insert" of the closure engine, whose unmatched product is the fatal
  "group not closed": the product of the two matrices, looked up with
  \<^verbatim>\<open>element_with_matrix\<close> in the group of the left operand (line 72 makes it this group).
\<close>

definition op_mul :: "'m collab \<Rightarrow> 'm point_group \<Rightarrow> nat \<Rightarrow> nat \<Rightarrow> error + nat" where
  "op_mul c pg a b =
     element_with_matrix c pg (mat_mul c (op_matrix (store pg a)) (op_matrix (store pg b)))"

text \<open>
  Modelled from the spec: the same operator with the right operand \<^verbatim>\<open>None\<close>, an inverse
  slot that was never written; composition is between operations only.
\<close>

definition op_mul_opt :: "'m collab \<Rightarrow> 'm point_group \<Rightarrow> nat \<Rightarrow> nat option \<Rightarrow> error + nat" where
  "op_mul_opt c pg a b = (case b of None \<Rightarrow> Inl TypeError | Some b' \<Rightarrow> op_mul c pg a b')"

section \<open>Closure and inverses\<close>

text \<open>A \<^verbatim>\<open>for\<close> loop whose body may raise: the first error ends it.\<close>

fun for_each :: "('a \<Rightarrow> 's \<Rightarrow> error + 's) \<Rightarrow> 'a list \<Rightarrow> 's \<Rightarrow> error + 's" where
  "for_each f [] s = Inr s"
| "for_each f (x # xs) s = (case f x s of Inl e \<Rightarrow> Inl e | Inr s' \<Rightarrow> for_each f xs s')"

definition set_inverse :: "nat \<Rightarrow> nat \<Rightarrow> 'm point_group \<Rightarrow> 'm point_group" where
  "set_inverse a b pg = pg\<lparr>store := (store pg)(a := (store pg a)\<lparr>op_inverse := Some b\<rparr>)\<rparr>"

text \<open>The test of lines 189-190.\<close>

definition inverse_conflicts :: "'m collab \<Rightarrow> 'm point_group \<Rightarrow> nat \<Rightarrow> nat \<Rightarrow> bool" where
  "inverse_conflicts c pg iop jop =
     ((case op_inverse (store pg iop) of None \<Rightarrow> False | Some x \<Rightarrow> \<not> op_eq c pg x jop) \<or>
      (case op_inverse (store pg jop) of None \<Rightarrow> False | Some x \<Rightarrow> \<not> op_eq c pg x iop))"

text \<open>
  The body of the two loops of \<^verbatim>\<open>_check_closure\<close> (lines 188-193). Python evaluates
  the product first, then the identity element, then compares them.
\<close>

definition closure_step ::
  "'m collab \<Rightarrow> nat \<Rightarrow> nat \<Rightarrow> 'm point_group \<Rightarrow> error + 'm point_group" where
  "closure_step c iop jop pg =
     (case op_mul c pg iop jop of
        Inl e \<Rightarrow> Inl e
      | Inr p \<Rightarrow>
          (case identity_element pg of
             Inl e \<Rightarrow> Inl e
           | Inr (ide, pg1) \<Rightarrow>
               if op_eq c pg1 p ide then
                 if inverse_conflicts c pg1 iop jop then Inl NonUniqueInverse
                 else Inr (set_inverse jop iop (set_inverse iop jop pg1))
               else Inr pg1))"

text \<open>\<^verbatim>\<open>_check_closure\<close> (lines 183-193).\<close>

definition check_closure :: "'m collab \<Rightarrow> 'm point_group \<Rightarrow> error + 'm point_group" where
  "check_closure c pg =
     for_each (\<lambda>iop s. for_each (closure_step c iop) (operations s) s) (operations pg) pg"

section \<open>Conjugacy classes\<close>

text \<open>
  Modelled from the spec: \<^verbatim>\<open>ConjugacyClass\<close> is missing from the sources. The spec
  gives a class seeded with one operation, whose "membership is a set keyed by
  tolerance-equality", so that adding is "duplicate-safe", and whose representative is
  the "smallest member under the operation total order".
\<close>

definition class_contains :: "'m collab \<Rightarrow> 'm point_group \<Rightarrow> nat list \<Rightarrow> nat \<Rightarrow> bool" where
  "class_contains c pg cl x = list_ex (\<lambda>y. op_eq c pg y x) cl"

definition add_element :: "'m collab \<Rightarrow> 'm point_group \<Rightarrow> nat list \<Rightarrow> nat \<Rightarrow> nat list" where
  "add_element c pg cl x = (if class_contains c pg cl x then cl else cl @ [x])"

definition first_element :: "'m collab \<Rightarrow> 'm point_group \<Rightarrow> nat list \<Rightarrow> nat option" where
  "first_element c pg cl =
     (case cl of
        [] \<Rightarrow> None
      | x # xs \<Rightarrow> Some (foldl (\<lambda>m y. if op_lt c (store pg y) (store pg m) then y else m) x xs))"

text \<open>
  Lines 199-206: the class of \<open>x\<close>, as its position in \<open>classes\<close>; a new class is
  appended when no class contains \<open>x\<close>.
\<close>

definition class_of_op ::
  "'m collab \<Rightarrow> 'm point_group \<Rightarrow> nat \<Rightarrow> error + (nat \<times> 'm point_group)" where
  "class_of_op c pg x =
     (case filter (\<lambda>k. class_contains c pg (classes pg ! k) x) [0..<length (classes pg)] of
        [] \<Rightarrow> Inr (length (classes pg), pg\<lparr>classes := classes pg @ [[x]]\<rparr>)
      | [k] \<Rightarrow> Inr (k, pg)
      | _ \<Rightarrow> Inl ClassesNotDisjoint)"

text \<open>Lines 208-209: the conjugate of \<open>x\<close> by \<open>g\<close> goes into the class at position \<open>k\<close>.\<close>

definition conjugate_into ::
  "'m collab \<Rightarrow> nat \<Rightarrow> nat \<Rightarrow> nat \<Rightarrow> 'm point_group \<Rightarrow> error + 'm point_group" where
  "conjugate_into c x k g pg =
     (if g = x then Inr pg
      else
        (case op_mul c pg g x of
           Inl e \<Rightarrow> Inl e
         | Inr p \<Rightarrow>
             (case op_mul_opt c pg p (op_inverse (store pg g)) of
                Inl e \<Rightarrow> Inl e
              | Inr q \<Rightarrow>
                  Inr (pg\<lparr>classes := (classes pg)[k := add_element c pg (classes pg ! k) q]\<rparr>))))"

definition classes_step :: "'m collab \<Rightarrow> nat \<Rightarrow> 'm point_group \<Rightarrow> error + 'm point_group" where
  "classes_step c x pg =
     (case class_of_op c pg x of
        Inl e \<Rightarrow> Inl e
      | Inr (k, pg1) \<Rightarrow> for_each (conjugate_into c x k) (operations pg1) pg1)"

text \<open>\<^verbatim>\<open>_compute_classes\<close> (lines 195-209).\<close>

definition compute_classes :: "'m collab \<Rightarrow> 'm point_group \<Rightarrow> error + 'm point_group" where
  "compute_classes c pg = for_each (classes_step c) (operations pg) pg"

section \<open>Naming the operations\<close>

definition set_principal :: "nat \<Rightarrow> 'm point_group \<Rightarrow> 'm point_group" where
  "set_principal i pg =
     pg\<lparr>store := (store pg)(i := (store pg i)\<lparr>op_principal_reflection := True\<rparr>)\<rparr>"

definition set_name :: "nat \<Rightarrow> string \<Rightarrow> 'm point_group \<Rightarrow> 'm point_group" where
  "set_name i s pg = pg\<lparr>store := (store pg)(i := (store pg i)\<lparr>op_name := Some s\<rparr>)\<rparr>"

definition sorted_ops :: "'m collab \<Rightarrow> 'm point_group \<Rightarrow> nat list \<Rightarrow> nat list" where
  "sorted_ops c pg xs = sort_lt (\<lambda>a b. op_lt c (store pg a) (store pg b)) xs"

text \<open>Lines 216-219: the first group of the sorted rotations, grouped by (n, exponent).\<close>

definition principal_rotations :: "'m collab \<Rightarrow> 'm point_group \<Rightarrow> nat list" where
  "principal_rotations c pg =
     (case groupby (\<lambda>i. (op_n (store pg i), op_exponent (store pg i)))
             (sorted_ops c pg (rotations pg)) of
        [] \<Rightarrow> []
      | g # _ \<Rightarrow> g)"

text \<open>
  Lines 220-232. For an order above 2 every reflection along one of the principal
  rotations is marked; otherwise the first reflection along the first principal
  rotation is marked and the loop ends (\<^verbatim>\<open>break\<close>).
\<close>

definition mark_principal_reflections :: "'m collab \<Rightarrow> 'm point_group \<Rightarrow> 'm point_group" where
  "mark_principal_reflections c pg =
     (case principal_rotations c pg of
        [] \<Rightarrow> pg
      | r0 # rs \<Rightarrow>
          if op_n (store pg r0) > 2 then
            foldl (\<lambda>s rot.
                foldl (\<lambda>s' x.
                    if is_same_axis c (op_axis (store s' x)) (op_axis (store s' rot))
                    then set_principal x s' else s')
                  s (reflections pg))
              pg (r0 # rs)
          else
            (case find (\<lambda>x. is_same_axis c (op_axis (store pg x)) (op_axis (store pg r0)))
                    (reflections pg) of
               None \<Rightarrow> pg
             | Some x \<Rightarrow> set_principal x pg))"

text \<open>
  Lines 253-273 and 287-307: the loop over a group of rotations with several axes. The
  two copies in the source differ in the prefix of the names and in the vector that
  stands for the y direction, which are the parameters \<open>pre\<close> and \<open>yv\<close>. \<open>i\<close> is the
  index of \<^verbatim>\<open>enumerate\<close>.
\<close>

fun name_axes ::
  "'m collab \<Rightarrow> string \<Rightarrow> vec \<Rightarrow> int \<Rightarrow> nat \<Rightarrow> nat \<Rightarrow> nat list \<Rightarrow> string list \<Rightarrow> nat \<Rightarrow> bool \<Rightarrow>
   'm point_group \<Rightarrow> error + 'm point_group" where
  "name_axes c pre yv order naxes i [] labels prime_count has_paren_label pg = Inr pg"
| "name_axes c pre yv order naxes i (rot # rest) labels prime_count has_paren_label pg =
     (if i < naxes then
        if is_same_axis c (op_axis (store pg rot)) (0, 0, 1) then
          name_axes c pre yv order naxes (i + 1) rest (labels @ [''(z)'']) prime_count True
            (set_name rot (pre @ str_int order @ ''(z)'') pg)
        else if is_same_axis c (op_axis (store pg rot)) yv then
          name_axes c pre yv order naxes (i + 1) rest (labels @ [''(y)'']) prime_count True
            (set_name rot (pre @ str_int order @ ''(y)'') pg)
        else if is_same_axis c (op_axis (store pg rot)) (1, 0, 0) then
          name_axes c pre yv order naxes (i + 1) rest (labels @ [''(x)'']) prime_count True
            (set_name rot (pre @ str_int order @ ''(x)'') pg)
        else
          (let label = primes (prime_count + (if has_paren_label then 1 else 0))
           in name_axes c pre yv order naxes (i + 1) rest (labels @ [label]) (prime_count + 1)
                has_paren_label (set_name rot (pre @ str_int order @ label) pg))
      else if naxes = 0 then Inl ZeroDivisionError
      else if i mod naxes < length labels then
        name_axes c pre yv order naxes (i + 1) rest labels prime_count has_paren_label
          (set_name rot
             (pre @ str_int order @ labels ! (i mod naxes) @ ''^''
                @ str_int (op_exponent (store pg rot))) pg)
      else Inl IndexError)"

text \<open>Lines 241-273 and 275-307: the body of the loop over the groups of one order.\<close>

definition name_group ::
  "'m collab \<Rightarrow> string \<Rightarrow> vec \<Rightarrow> nat list \<Rightarrow> 'm point_group \<Rightarrow> error + 'm point_group" where
  "name_group c pre yv rotgrp pg =
     (case rotgrp of
        [] \<Rightarrow> Inl IndexError
      | r0 # rest \<Rightarrow>
          (let order = op_n (store pg r0) in
           if int (length rotgrp) = order - 1 then
             Inr (foldl (\<lambda>s r. set_name r
                           (pre @ str_int order @ ''^'' @ str_int (op_exponent (store s r))) s)
                    (set_name r0 (pre @ str_int order) pg) rest)
           else
             name_axes c pre yv order
               (length (filter (\<lambda>x. op_exponent (store pg x) = 1) rotgrp)) 0 rotgrp [] 0 False pg))"

text \<open>
  Modelled from the spec: \<^verbatim>\<open>Reflection.is_principal_reflection\<close> is missing from the
  sources; the spec gives a reflection that is horizontal "if flagged principal".
\<close>

definition is_principal_reflection :: "'m point_group \<Rightarrow> nat \<Rightarrow> bool" where
  "is_principal_reflection pg r = op_principal_reflection (store pg r)"

text \<open>Lines 308-330; \<open>prime_count\<close> is the dictionary with the keys v, d and h.\<close>

fun name_reflections ::
  "'m collab \<Rightarrow> nat list \<Rightarrow> (char \<Rightarrow> nat) \<Rightarrow> bool \<Rightarrow> 'm point_group \<Rightarrow> 'm point_group" where
  "name_reflections c [] prime_count has_paren_label pg = pg"
| "name_reflections c (r # rest) prime_count has_paren_label pg =
     (let subscript =
            (if is_principal_reflection pg r then CHR ''h''
             else if is_dihedral c (map (store pg) (operations pg)) (store pg r) then CHR ''d''
             else CHR ''v'')
      in
        if is_same_axis c (op_axis (store pg r)) (0, 0, 1) then
          name_reflections c rest prime_count True
            (set_name r (''sigma_'' @ [subscript] @ ''(xy)'') pg)
        else if is_same_axis c (op_axis (store pg r)) (0, 1, 0) then
          name_reflections c rest prime_count True
            (set_name r (''sigma_'' @ [subscript] @ ''(xz)'') pg)
        else if is_same_axis c (op_axis (store pg r)) (1, 0, 0) then
          name_reflections c rest prime_count True
            (set_name r (''sigma_'' @ [subscript] @ ''(yz)'') pg)
        else
          (let label = primes (prime_count subscript + (if has_paren_label then 1 else 0))
           in name_reflections c rest (prime_count(subscript := prime_count subscript + 1))
                has_paren_label (set_name r (''sigma_'' @ [subscript] @ label) pg)))"

text \<open>Line 331: the order of two classes is the order of their first elements.\<close>

definition class_lt :: "'m collab \<Rightarrow> 'm point_group \<Rightarrow> nat list \<Rightarrow> nat list \<Rightarrow> bool" where
  "class_lt c pg k1 k2 =
     (case (first_element c pg k1, first_element c pg k2) of
        (Some a, Some b) \<Rightarrow> op_lt c (store pg a) (store pg b)
      | _ \<Rightarrow> False)"

text \<open>Line 233, the in-place sort of the operations.\<close>

definition sort_operations :: "'m collab \<Rightarrow> 'm point_group \<Rightarrow> 'm point_group" where
  "sort_operations c pg = pg\<lparr>operations := sorted_ops c pg (operations pg)\<rparr>"

text \<open>Lines 237-239, after the identity element \<open>ide\<close> has been looked up.\<close>

definition name_identity_inversion :: "nat \<Rightarrow> 'm point_group \<Rightarrow> 'm point_group" where
  "name_identity_inversion ide pg =
     (let pg1 = set_name ide ''E'' pg
      in case inversion pg1 of None \<Rightarrow> pg1 | Some i \<Rightarrow> set_name i ''i'' pg1)"

text \<open>Lines 240-273: the rotations, grouped by their order, compared with (0,1,1).\<close>

definition name_rotations :: "'m collab \<Rightarrow> 'm point_group \<Rightarrow> error + 'm point_group" where
  "name_rotations c pg =
     for_each (name_group c ''C_'' (0, 1, 1))
       (groupby (\<lambda>i. op_n (store pg i)) (rotations pg)) pg"

text \<open>Lines 274-307: the improper rotations, compared with (0,1,0).\<close>

definition name_improper_rotations :: "'m collab \<Rightarrow> 'm point_group \<Rightarrow> error + 'm point_group" where
  "name_improper_rotations c pg =
     for_each (name_group c ''S_'' (0, 1, 0))
       (groupby (\<lambda>i. op_n (store pg i)) (improper_rotations pg)) pg"

text \<open>Lines 308-330 and line 331.\<close>

definition name_all_reflections :: "'m collab \<Rightarrow> 'm point_group \<Rightarrow> 'm point_group" where
  "name_all_reflections c pg = name_reflections c (reflections pg) (\<lambda>_. 0) False pg"

definition sort_classes :: "'m collab \<Rightarrow> 'm point_group \<Rightarrow> 'm point_group" where
  "sort_classes c pg = pg\<lparr>classes := sort_lt (class_lt c pg) (classes pg)\<rparr>"

text \<open>\<^verbatim>\<open>_name_operations\<close> (lines 211-331).\<close>

definition name_operations :: "'m collab \<Rightarrow> 'm point_group \<Rightarrow> error + 'm point_group" where
  "name_operations c pg =
     (case identity_element (sort_operations c (mark_principal_reflections c pg)) of
        Inl e \<Rightarrow> Inl e
      | Inr (ide, pg1) \<Rightarrow>
          (case name_rotations c (name_identity_inversion ide pg1) of
             Inl e \<Rightarrow> Inl e
           | Inr pg2 \<Rightarrow>
               (case name_improper_rotations c pg2 of
                  Inl e \<Rightarrow> Inl e
                | Inr pg3 \<Rightarrow> Inr (sort_classes c (name_all_reflections c pg3)))))"

section \<open>The name of the group\<close>

definition set_group_name :: "string \<Rightarrow> 'm point_group \<Rightarrow> error + 'm point_group" where
  "set_group_name s pg = Inr (pg\<lparr>pg_name := Some s\<rparr>)"

text \<open>Lines 341-373: two or more axes of an order above 2.\<close>

definition get_name_polyhedral :: "'m point_group \<Rightarrow> error + 'm point_group" where
  "get_name_polyhedral pg =
     (if num_C_n_axes pg 5 = 12 then
        if inversion pg = None then set_group_name ''I'' pg else set_group_name ''I_h'' pg
      else if num_C_n_axes pg 4 = 6 then
        if inversion pg = None then set_group_name ''O'' pg else set_group_name ''O_h'' pg
      else if num_C_n_axes pg 3 = 4 then
        if inversion pg = None then
          if length (reflections pg) = 6 then set_group_name ''T_d'' pg
          else set_group_name ''T'' pg
        else set_group_name ''T_h'' pg
      else Inl UnclassifiableGroup)"

text \<open>Lines 374-406: at least one rotation; \<open>highest_Cn\<close> is the first rotation.\<close>

definition get_name_axial :: "'m collab \<Rightarrow> nat \<Rightarrow> 'm point_group \<Rightarrow> error + 'm point_group" where
  "get_name_axial c highest_Cn pg =
     (let highest_n = op_n (store pg highest_Cn);
          highest_axis = op_axis (store pg highest_Cn);
          count = length (filter (\<lambda>rot. op_n (store pg rot) = 2 \<and>
                      is_perpendicular c highest_axis (op_axis (store pg rot))) (rotations pg))
      in
        if int count = highest_n then
          if list_ex (is_principal_reflection pg) (reflections pg) then
            set_group_name (''D_'' @ str_int highest_n @ ''h'') pg
          else if int (length (reflections pg)) = highest_n then
            set_group_name (''D_'' @ str_int highest_n @ ''d'') pg
          else if length (reflections pg) = 0 then
            set_group_name (''D_'' @ str_int highest_n) pg
          else Inl UnclassifiableGroup
        else
          if list_ex (is_principal_reflection pg) (reflections pg) then
            set_group_name (''C_'' @ str_int highest_n @ ''h'') pg
          else if int (length (reflections pg)) = highest_n then
            set_group_name (''C_'' @ str_int highest_n @ ''v'') pg
          else if list_ex (\<lambda>irot. op_n (store pg irot) = 2 * highest_n) (improper_rotations pg) then
            set_group_name (''S_'' @ str_int (2 * highest_n)) pg
          else set_group_name (''C_'' @ str_int highest_n) pg)"

text \<open>Lines 407-418: no rotation.\<close>

definition get_name_no_rotation :: "'m point_group \<Rightarrow> error + 'm point_group" where
  "get_name_no_rotation pg =
     (if length (reflections pg) = 1 then set_group_name ''C_s'' pg
      else if inversion pg \<noteq> None then set_group_name ''C_i'' pg
      else if length (operations pg) = 1 then set_group_name ''C_1'' pg
      else Inl UnclassifiableGroup)"

text \<open>\<^verbatim>\<open>_get_name\<close> (lines 335-418).\<close>

definition get_name :: "'m collab \<Rightarrow> 'm point_group \<Rightarrow> error + 'm point_group" where
  "get_name c pg =
     (if length (filter (\<lambda>rot. op_n (store pg rot) > 2 \<and> op_exponent (store pg rot) = 1)
                   (rotations pg)) \<ge> 2
      then get_name_polyhedral pg
      else
        (case rotations pg of
           highest_Cn # _ \<Rightarrow> get_name_axial c highest_Cn pg
         | [] \<Rightarrow> get_name_no_rotation pg))"

section \<open>Construction\<close>

text \<open>
  \<^verbatim>\<open>PointGroup.__init__\<close> (lines 55-77) on the operations \<open>ops\<close> of the store \<open>h\<close>. The
  molecule is only kept; the test of line 64 is the type of \<open>ops\<close>;
  \<^verbatim>\<open>_generate_elements\<close> is the class attribute of line 48, which nothing sets.
\<close>

definition new_point_group :: "(nat \<Rightarrow> 'm operation) \<Rightarrow> nat list \<Rightarrow> 'm point_group" where
  "new_point_group h ops =
     \<lparr>store = h, operations = ops, classes = [], pg_name = None,
      generate_elements = False, identity_cache = None\<rparr>"

definition PointGroup_init ::
  "'m collab \<Rightarrow> (nat \<Rightarrow> 'm operation) \<Rightarrow> nat list \<Rightarrow> error + 'm point_group" where
  "PointGroup_init c h ops =
     (case check_closure c (new_point_group h ops) of
        Inl e \<Rightarrow> Inl e
      | Inr pg1 \<Rightarrow>
          (case compute_classes c pg1 of
             Inl e \<Rightarrow> Inl e
           | Inr pg2 \<Rightarrow>
               (case name_operations c pg2 of
                  Inl e \<Rightarrow> Inl e
                | Inr pg3 \<Rightarrow> get_name c pg3)))"

section \<open>The collaborator in exact arithmetic\<close>

text \<open>
  To run the code on explicit groups: matrices with three rows, compared exactly, axes
  that are the same when they are parallel, and perpendicular when their inner product
  vanishes. The method \<^verbatim>\<open>is_dihedral\<close> and the order stay parameters.
\<close>

type_synonym mat3 = "vec \<times> vec \<times> vec"

definition dot :: "vec \<Rightarrow> vec \<Rightarrow> real" where
  "dot a b = (case a of (a1, a2, a3) \<Rightarrow> case b of (b1, b2, b3) \<Rightarrow> a1 * b1 + a2 * b2 + a3 * b3)"

definition cross :: "vec \<Rightarrow> vec \<Rightarrow> vec" where
  "cross a b =
     (case a of (a1, a2, a3) \<Rightarrow> case b of (b1, b2, b3) \<Rightarrow>
        (a2 * b3 - a3 * b2, a3 * b1 - a1 * b3, a1 * b2 - a2 * b1))"

definition mat3_mul :: "mat3 \<Rightarrow> mat3 \<Rightarrow> mat3" where
  "mat3_mul a b =
     (case a of (r1, r2, r3) \<Rightarrow>
      case b of ((b11, b12, b13), (b21, b22, b23), (b31, b32, b33)) \<Rightarrow>
        (let c1 = (b11, b21, b31); c2 = (b12, b22, b32); c3 = (b13, b23, b33)
         in ((dot r1 c1, dot r1 c2, dot r1 c3),
             (dot r2 c1, dot r2 c2, dot r2 c3),
             (dot r3 c1, dot r3 c2, dot r3 c3))))"

definition exact_collab ::
  "(mat3 operation list \<Rightarrow> mat3 operation \<Rightarrow> bool) \<Rightarrow> (mat3 operation \<Rightarrow> mat3 operation \<Rightarrow> bool) \<Rightarrow>
   mat3 collab" where
  "exact_collab dih lt =
     \<lparr>mat_mul = mat3_mul, is_same_matrix = (=),
      is_same_axis = (\<lambda>a b. cross a b = (0, 0, 0)),
      is_perpendicular = (\<lambda>a b. dot a b = 0),
      is_dihedral = dih, op_lt = lt\<rparr>"

text \<open>An operation as its constructor leaves it: no name, no inverse, not principal.\<close>

definition mk_op :: "kind \<Rightarrow> int \<Rightarrow> int \<Rightarrow> vec \<Rightarrow> mat3 \<Rightarrow> mat3 operation" where
  "mk_op k order e ax m =
     \<lparr>op_kind = k, op_n = order, op_exponent = e, op_axis = ax, op_matrix = m,
      op_name = None, op_inverse = None, op_principal_reflection = False\<rparr>"

definition diag3 :: "real \<Rightarrow> real \<Rightarrow> real \<Rightarrow> mat3" where
  "diag3 a b d = ((a, 0, 0), (0, b, 0), (0, 0, d))"

definition E_op :: "mat3 operation" where
  "E_op = mk_op Identity 1 1 (0, 0, 0) (diag3 1 1 1)"

definition i_op :: "mat3 operation" where
  "i_op = mk_op Inversion 2 1 (0, 0, 0) (diag3 (-1) (-1) (-1))"

definition sigma_xy :: "mat3 operation" where
  "sigma_xy = mk_op Reflection 2 1 (0, 0, 1) (diag3 1 1 (-1))"

definition sigma_yz :: "mat3 operation" where
  "sigma_yz = mk_op Reflection 2 1 (1, 0, 0) (diag3 (-1) 1 1)"

definition C2_z :: "mat3 operation" where
  "C2_z = mk_op Rotation 2 1 (0, 0, 1) (diag3 (-1) (-1) 1)"

definition C2_y :: "mat3 operation" where
  "C2_y = mk_op Rotation 2 1 (0, 1, 0) (diag3 (-1) 1 (-1))"

definition C2_x :: "mat3 operation" where
  "C2_x = mk_op Rotation 2 1 (1, 0, 0) (diag3 1 (-1) (-1))"



text \<open>The store that holds the operations \<open>xs\<close> at the addresses 0, 1, ...\<close>

definition store_of :: "'m operation list \<Rightarrow> 'm operation \<Rightarrow> nat \<Rightarrow> 'm operation" where
  "store_of xs d i = (if i < length xs then xs ! i else d)"

section \<open>The claims in the words of the specification\<close>

text \<open>The result of the classification: the group with its name, or the error.\<close>

definition named :: "'m point_group \<Rightarrow> error + string \<Rightarrow> error + 'm point_group" where
  "named pg r = (case r of Inl e \<Rightarrow> Inl e | Inr s \<Rightarrow> Inr (pg\<lparr>pg_name := Some s\<rparr>))"

text \<open>
  The name of a group without rotations, as the specification gives it: "C_s" if exactly
  one reflection; "C_i" if inversion present; "C_1" if the group contains only identity;
  otherwise the fatal error.
\<close>

definition claimed_no_rotation_name :: "'m point_group \<Rightarrow> error + string" where
  "claimed_no_rotation_name pg =
     (if length (reflections pg) = 1 then Inr ''C_s''
      else if \<exists>i \<in> set (operations pg). kind_of pg i = Inversion then Inr ''C_i''
      else if \<exists>e. operations pg = [e] \<and> kind_of pg e = Identity then Inr ''C_1''
      else Inl UnclassifiableGroup)"

section \<open>What the construction keeps\<close>

text \<open>
  The construction writes the name, the inverse and the principal flag of an operation,
  never its kind, order, exponent, axis or matrix; a frame relates two states of the
  group whose stores agree on those and whose lists hold the same operations; a memo of
  the identity element, once written, stays.
\<close>

definition same_geometry :: "'m operation \<Rightarrow> 'm operation \<Rightarrow> bool" where
  "same_geometry a b \<longleftrightarrow>
     op_kind b = op_kind a \<and> op_n b = op_n a \<and> op_exponent b = op_exponent a \<and>
     op_axis b = op_axis a \<and> op_matrix b = op_matrix a"

definition frame :: "'m point_group \<Rightarrow> 'm point_group \<Rightarrow> bool" where
  "frame pg pg' \<longleftrightarrow>
     (\<forall>i. same_geometry (store pg i) (store pg' i)) \<and>
     mset (operations pg') = mset (operations pg) \<and>
     generate_elements pg' = generate_elements pg \<and>
     (\<forall>i. identity_cache pg = Some i \<longrightarrow> identity_cache pg' = Some i)"

definition frame_ops :: "'m point_group \<Rightarrow> 'm point_group \<Rightarrow> bool" where
  "frame_ops pg pg' \<longleftrightarrow> frame pg pg' \<and> operations pg' = operations pg"


text \<open>
  The name of a group with rotations and fewer than two axes of an order above 2, as the
  specification gives it; \<open>r0\<close> is the first rotation, \<open>count\<close> the number of rotations of
  order 2 perpendicular to its axis.
\<close>

definition claimed_axial_name :: "'m collab \<Rightarrow> 'm point_group \<Rightarrow> nat \<Rightarrow> error + string" where
  "claimed_axial_name c pg r0 =
     (let n = op_n (store pg r0);
          count = length (filter (\<lambda>rot. op_n (store pg rot) = 2 \<and>
                     is_perpendicular c (op_axis (store pg r0)) (op_axis (store pg rot)))
                   (rotations pg));
          principal = (\<exists>r \<in> set (reflections pg). op_principal_reflection (store pg r));
          nrefl = length (reflections pg)
      in
        if int count = n then
          if principal then Inr (''D_'' @ str_int n @ ''h'')
          else if int nrefl = n then Inr (''D_'' @ str_int n @ ''d'')
          else if nrefl = 0 then Inr (''D_'' @ str_int n)
          else Inl UnclassifiableGroup
        else
          if principal then Inr (''C_'' @ str_int n @ ''h'')
          else if int nrefl = n then Inr (''C_'' @ str_int n @ ''v'')
          else if \<exists>irot \<in> set (improper_rotations pg). op_n (store pg irot) = 2 * n
          then Inr (''S_'' @ str_int (2 * n))
          else Inr (''C_'' @ str_int n))"


text \<open>
  Closure, as the specification gives it: the product of every two operations of the
  group matches an operation of the group.
\<close>

definition product_matched :: "'m collab \<Rightarrow> 'm point_group \<Rightarrow> nat \<Rightarrow> nat \<Rightarrow> bool" where
  "product_matched c pg a b \<longleftrightarrow>
     (\<exists>x \<in> set (operations pg).
        is_same_matrix c (op_matrix (store pg x))
          (mat_mul c (op_matrix (store pg a)) (op_matrix (store pg b))))"




text \<open>
  The principal reflections of a group whose first rotations have an order of at most 2,
  as the claim gives them: a reflection along the canonical z axis, when a rotation of
  the first group is along the z axis too.
\<close>

definition claimed_principal_flag :: "'m collab \<Rightarrow> 'm point_group \<Rightarrow> nat \<Rightarrow> bool" where
  "claimed_principal_flag c pg r \<longleftrightarrow>
     is_same_axis c (op_axis (store pg r)) (0, 0, 1) \<and>
     (\<exists>rot \<in> set (principal_rotations c pg). is_same_axis c (op_axis (store pg rot)) (0, 0, 1))"

text \<open>The group of E, a half turn about x, the inversion and the reflection in the yz plane.\<close>

definition C2h_x :: "mat3 point_group" where
  "C2h_x = new_point_group (store_of [E_op, C2_x, i_op, sigma_yz] E_op) [0, 1, 2, 3]"


text \<open>The group of E and the half turns about z, y and x.\<close>

definition D2_store :: "nat \<Rightarrow> mat3 operation" where
  "D2_store = store_of [E_op, C2_z, C2_y, C2_x] E_op"







text \<open>Classification and naming leave the inverse slots as the closure pass wrote them.\<close>

definition inverses_kept :: "'m point_group \<Rightarrow> 'm point_group \<Rightarrow> bool" where
  "inverses_kept pg pg' \<longleftrightarrow> (\<forall>i. op_inverse (store pg' i) = op_inverse (store pg i))"

section \<open>Verified properties\<close>

subsection \<open>Groups without rotations\<close>

lemma inversion_None_iff:
  "inversion pg = None \<longleftrightarrow> \<not> (\<exists>i \<in> set (operations pg). kind_of pg i = Inversion)"
  by (auto simp: inversion_def find_None_iff)

lemma single_identity_iff:
  assumes "\<exists>i \<in> set (operations pg). kind_of pg i = Identity"
  shows "(\<exists>e. operations pg = [e] \<and> kind_of pg e = Identity) \<longleftrightarrow> length (operations pg) = 1"
proof
  assume "length (operations pg) = 1"
  then obtain e where e: "operations pg = [e]"
    by (cases "operations pg") auto
  with assms show "\<exists>e. operations pg = [e] \<and> kind_of pg e = Identity" by auto
qed auto

lemma get_name_no_rotation_claimed:
  assumes "rotations pg = []" and "\<exists>i \<in> set (operations pg). kind_of pg i = Identity"
  shows "get_name c pg = named pg (claimed_no_rotation_name pg)"
proof -
  have "get_name c pg = get_name_no_rotation pg"
    using assms(1) by (simp add: get_name_def)
  also have "\<dots> = named pg (claimed_no_rotation_name pg)"
    using single_identity_iff [OF assms(2)]
    by (simp add: get_name_no_rotation_def claimed_no_rotation_name_def named_def
        set_group_name_def inversion_None_iff)
  finally show ?thesis .
qed

subsection \<open>Frames and loops\<close>

lemma same_geometry_refl [simp]: "same_geometry a a"
  by (simp add: same_geometry_def)

lemma same_geometry_trans: "same_geometry a b \<Longrightarrow> same_geometry b d \<Longrightarrow> same_geometry a d"
  by (simp add: same_geometry_def)

lemma frame_refl [simp]: "frame pg pg"
  by (simp add: frame_def)

lemma frame_trans: "frame a b \<Longrightarrow> frame b d \<Longrightarrow> frame a d"
  unfolding frame_def by (metis same_geometry_trans)

lemma frame_ops_refl [simp]: "frame_ops pg pg"
  by (simp add: frame_ops_def)

lemma frame_ops_trans: "frame_ops a b \<Longrightarrow> frame_ops b d \<Longrightarrow> frame_ops a d"
  unfolding frame_ops_def by (metis frame_trans)

lemma frame_ops_frame: "frame_ops a b \<Longrightarrow> frame a b"
  by (simp add: frame_ops_def)

lemma frame_ops_set_inverse [simp]: "frame_ops pg (set_inverse a b pg)"
  by (simp add: frame_ops_def frame_def set_inverse_def same_geometry_def)

lemma frame_ops_set_name [simp]: "frame_ops pg (set_name a s pg)"
  by (simp add: frame_ops_def frame_def set_name_def same_geometry_def)

lemma frame_ops_set_principal [simp]: "frame_ops pg (set_principal a pg)"
  by (simp add: frame_ops_def frame_def set_principal_def same_geometry_def)

lemma frame_ops_cache: "identity_cache pg = None \<Longrightarrow> frame_ops pg (pg\<lparr>identity_cache := x\<rparr>)"
  by (simp add: frame_ops_def frame_def)

lemma frame_ops_classes [simp]: "frame_ops pg (pg\<lparr>classes := x\<rparr>)"
  by (simp add: frame_ops_def frame_def)

lemma frame_ops_pg_name [simp]: "frame_ops pg (pg\<lparr>pg_name := x\<rparr>)"
  by (simp add: frame_ops_def frame_def)

text \<open>What a frame keeps.\<close>

lemma frame_kind_of: "frame pg pg' \<Longrightarrow> kind_of pg' i = kind_of pg i"
  by (simp add: frame_def same_geometry_def kind_of_def)


lemma frame_set: "frame pg pg' \<Longrightarrow> set (operations pg') = set (operations pg)"
  by (metis frame_def mset_eq_setD)

lemma frame_length: "frame pg pg' \<Longrightarrow> length (operations pg') = length (operations pg)"
  by (metis frame_def mset_eq_length)

lemma frame_filter_kind:
  assumes "frame pg pg'"
  shows "mset (filter (\<lambda>i. kind_of pg' i = k) (operations pg'))
       = mset (filter (\<lambda>i. kind_of pg i = k) (operations pg))"
proof -
  have "(\<lambda>i. kind_of pg' i = k) = (\<lambda>i. kind_of pg i = k)"
    using frame_kind_of [OF assms] by auto
  then show ?thesis
    using assms by (simp add: frame_def)
qed

lemma frame_rotations: "frame pg pg' \<Longrightarrow> mset (rotations pg') = mset (rotations pg)"
  unfolding rotations_def by (rule frame_filter_kind)

lemma frame_reflections: "frame pg pg' \<Longrightarrow> mset (reflections pg') = mset (reflections pg)"
  unfolding reflections_def by (rule frame_filter_kind)

lemma frame_improper: "frame pg pg' \<Longrightarrow> mset (improper_rotations pg') = mset (improper_rotations pg)"
  unfolding improper_rotations_def by (rule frame_filter_kind)

lemma frame_ops_rotations: "frame_ops pg pg' \<Longrightarrow> rotations pg' = rotations pg"
  using frame_kind_of [of pg pg'] by (simp add: frame_ops_def rotations_def)

lemma frame_ops_reflections: "frame_ops pg pg' \<Longrightarrow> reflections pg' = reflections pg"
  using frame_kind_of [of pg pg'] by (simp add: frame_ops_def reflections_def)

lemma frame_ops_improper: "frame_ops pg pg' \<Longrightarrow> improper_rotations pg' = improper_rotations pg"
  using frame_kind_of [of pg pg'] by (simp add: frame_ops_def improper_rotations_def)

text \<open>Loops.\<close>

lemma for_each_invariant:
  assumes "for_each f xs s = Inr s'" and "I s"
    and "\<And>x t t'. x \<in> set xs \<Longrightarrow> I t \<Longrightarrow> f x t = Inr t' \<Longrightarrow> I t'"
  shows "I s'"
  using assms
proof (induction xs arbitrary: s)
  case Nil
  then show ?case by simp
next
  case (Cons x xs)
  from Cons.prems(1) obtain t where t: "f x s = Inr t" and rest: "for_each f xs t = Inr s'"
    by (auto split: sum.splits)
  have "I t" using Cons.prems(2,3) t by auto
  then show ?case using Cons.IH [OF rest] Cons.prems(3) by auto
qed




lemma identity_element_frame:
  "identity_element pg = Inr (i, pg') \<Longrightarrow> frame_ops pg pg'"
  by (auto simp: identity_element_def frame_ops_cache split: option.splits)

lemma closure_step_frame:
  assumes "closure_step c iop jop pg = Inr pg'"
  shows "frame_ops pg pg'"
proof -
  from assms obtain p ide pg1 where
    ide: "identity_element pg = Inr (ide, pg1)" and
    res: "pg' = pg1 \<or> pg' = set_inverse jop iop (set_inverse iop jop pg1)"
    by (auto simp: closure_step_def split: sum.splits if_splits)
  have "frame_ops pg pg1" using ide by (rule identity_element_frame)
  moreover have "frame_ops pg1 pg'"
    using res frame_ops_trans [OF frame_ops_set_inverse frame_ops_set_inverse] by auto
  ultimately show ?thesis by (rule frame_ops_trans)
qed

lemma for_each_frame_ops:
  assumes "for_each f xs s = Inr s'"
    and "\<And>x t t'. x \<in> set xs \<Longrightarrow> f x t = Inr t' \<Longrightarrow> frame_ops t t'"
  shows "frame_ops s s'"
proof (rule for_each_invariant [where I = "frame_ops s", OF assms(1)])
  show "frame_ops s s" by simp
  show "\<And>x t t'. x \<in> set xs \<Longrightarrow> frame_ops s t \<Longrightarrow> f x t = Inr t' \<Longrightarrow> frame_ops s t'"
    using assms(2) frame_ops_trans by blast
qed

lemma closure_row_frame:
  "for_each (closure_step c iop) xs s = Inr s' \<Longrightarrow> frame_ops s s'"
  by (erule for_each_frame_ops) (rule closure_step_frame)

lemma check_closure_frame: "check_closure c pg = Inr pg' \<Longrightarrow> frame_ops pg pg'"
  unfolding check_closure_def
  by (erule for_each_frame_ops) (rule closure_row_frame)

lemma class_of_op_frame: "class_of_op c pg x = Inr (k, pg') \<Longrightarrow> frame_ops pg pg'"
  by (auto simp: class_of_op_def split: list.splits)

lemma conjugate_into_frame: "conjugate_into c x k g pg = Inr pg' \<Longrightarrow> frame_ops pg pg'"
  by (auto simp: conjugate_into_def split: if_splits sum.splits)

lemma classes_step_frame:
  assumes "classes_step c x pg = Inr pg'"
  shows "frame_ops pg pg'"
proof -
  from assms obtain k pg1 where
    k: "class_of_op c pg x = Inr (k, pg1)" and
    loop: "for_each (conjugate_into c x k) (operations pg1) pg1 = Inr pg'"
    by (auto simp: classes_step_def split: sum.splits)
  have "frame_ops pg1 pg'"
    using loop by (rule for_each_frame_ops) (rule conjugate_into_frame)
  with class_of_op_frame [OF k] show ?thesis by (rule frame_ops_trans)
qed

lemma compute_classes_frame: "compute_classes c pg = Inr pg' \<Longrightarrow> frame_ops pg pg'"
  unfolding compute_classes_def
  by (erule for_each_frame_ops) (rule classes_step_frame)

lemma foldl_frame_ops:
  assumes "\<And>t x. frame_ops t (f t x)"
  shows "frame_ops s (foldl f s xs)"
proof (induction xs arbitrary: s)
  case Nil
  show ?case by simp
next
  case (Cons x xs)
  have "frame_ops s (f s x)" by (rule assms)
  then show ?case using Cons.IH [of "f s x"] by (simp add: frame_ops_trans)
qed

lemma mark_principal_frame: "frame_ops pg (mark_principal_reflections c pg)"
proof (cases "principal_rotations c pg")
  case Nil
  then show ?thesis by (simp add: mark_principal_reflections_def)
next
  case (Cons r0 rs)
  have inner: "\<And>rot t. frame_ops t (foldl (\<lambda>s' x.
          if is_same_axis c (op_axis (store s' x)) (op_axis (store s' rot))
          then set_principal x s' else s') t (reflections pg))"
    by (rule foldl_frame_ops) simp
  show ?thesis
  proof (cases "op_n (store pg r0) > 2")
    case True
    then show ?thesis
      unfolding mark_principal_reflections_def Cons
      by (simp del: foldl_Cons) (rule foldl_frame_ops, rule inner)
  next
    case False
    then show ?thesis
      unfolding mark_principal_reflections_def Cons
      by (simp split: option.splits)
  qed
qed

lemma name_axes_frame:
  "name_axes c pre yv order naxes i xs labels pc hp pg = Inr pg' \<Longrightarrow> frame_ops pg pg'"
proof (induction xs arbitrary: i labels pc hp pg)
  case Nil
  then show ?case by simp
next
  case (Cons rot rest)
  from Cons.prems obtain s i' l' pc' hp' where
    "name_axes c pre yv order naxes i' rest l' pc' hp' (set_name rot s pg) = Inr pg'"
    by (auto simp: Let_def split: if_splits)
  then have "frame_ops (set_name rot s pg) pg'" by (rule Cons.IH)
  then show ?case using frame_ops_trans [OF frame_ops_set_name] by blast
qed

lemma name_group_frame:
  assumes "name_group c pre yv rotgrp pg = Inr pg'"
  shows "frame_ops pg pg'"
proof (cases rotgrp)
  case Nil
  with assms show ?thesis by (simp add: name_group_def)
next
  case (Cons r0 rest)
  show ?thesis
  proof (cases "int (length rotgrp) = op_n (store pg r0) - 1")
    case True
    then have "pg' = foldl (\<lambda>s r. set_name r (pre @ str_int (op_n (store pg r0)) @ ''^''
                      @ str_int (op_exponent (store s r))) s)
                   (set_name r0 (pre @ str_int (op_n (store pg r0))) pg) rest"
      using assms Cons by (simp add: name_group_def Let_def)
    moreover have "frame_ops (set_name r0 (pre @ str_int (op_n (store pg r0))) pg)
        (foldl (\<lambda>s r. set_name r (pre @ str_int (op_n (store pg r0)) @ ''^''
                      @ str_int (op_exponent (store s r))) s)
                   (set_name r0 (pre @ str_int (op_n (store pg r0))) pg) rest)"
      by (rule foldl_frame_ops) simp
    ultimately show ?thesis
      using frame_ops_trans [OF frame_ops_set_name] by blast
  next
    case False
    then show ?thesis
      using assms Cons
      by (auto simp: name_group_def Let_def simp del: name_axes.simps dest: name_axes_frame)
  qed
qed

lemma name_reflections_frame: "frame_ops pg (name_reflections c xs pc hp pg)"
proof (induction xs arbitrary: pc hp pg)
  case Nil
  show ?case by simp
next
  case (Cons r rest)
  show ?case
    by (auto simp: Let_def intro!: frame_ops_trans [OF frame_ops_set_name Cons.IH])
qed

lemma mset_insort_lt: "mset (insort_lt lt x xs) = add_mset x (mset xs)"
  by (induction xs) auto

lemma mset_sort_lt: "mset (sort_lt lt xs) = mset xs"
  unfolding sort_lt_def by (induction xs) (auto simp: mset_insort_lt)

lemma get_name_frame: "get_name c pg = Inr pg' \<Longrightarrow> frame_ops pg pg'"
  by (auto simp: get_name_def get_name_polyhedral_def get_name_axial_def get_name_no_rotation_def
      set_group_name_def Let_def split: if_splits list.splits)


lemma frame_ops_operations: "frame_ops a b \<Longrightarrow> operations b = operations a"
  by (simp add: frame_ops_def)

lemma frame_sort_operations: "frame pg (sort_operations c pg)"
  by (simp add: frame_def sort_operations_def sorted_ops_def mset_sort_lt)

lemma operations_sort_operations:
  "operations (sort_operations c pg) = sorted_ops c pg (operations pg)"
  by (simp add: sort_operations_def)

lemma name_identity_inversion_frame: "frame_ops pg (name_identity_inversion ide pg)"
  using frame_ops_trans [OF frame_ops_set_name frame_ops_set_name]
  by (auto simp: name_identity_inversion_def Let_def split: option.splits)

lemma name_rotations_frame: "name_rotations c pg = Inr pg' \<Longrightarrow> frame_ops pg pg'"
  unfolding name_rotations_def by (erule for_each_frame_ops) (rule name_group_frame)

lemma name_improper_rotations_frame:
  "name_improper_rotations c pg = Inr pg' \<Longrightarrow> frame_ops pg pg'"
  unfolding name_improper_rotations_def by (erule for_each_frame_ops) (rule name_group_frame)

lemma name_all_reflections_frame: "frame_ops pg (name_all_reflections c pg)"
  unfolding name_all_reflections_def by (rule name_reflections_frame)

lemma sort_classes_frame: "frame_ops pg (sort_classes c pg)"
  by (simp add: sort_classes_def)

lemma name_operations_stages:
  assumes "name_operations c pg = Inr pg'"
  obtains ide pg1 pg2 pg3 where
    "identity_element (sort_operations c (mark_principal_reflections c pg)) = Inr (ide, pg1)"
    "name_rotations c (name_identity_inversion ide pg1) = Inr pg2"
    "name_improper_rotations c pg2 = Inr pg3"
    "pg' = sort_classes c (name_all_reflections c pg3)"
  using assms by (auto simp: name_operations_def split: sum.splits)

lemma name_operations_result:
  assumes "name_operations c pg = Inr pg'"
  shows "frame (mark_principal_reflections c pg) pg' \<and>
         operations pg' = sorted_ops c (mark_principal_reflections c pg) (operations pg)"
proof -
  let ?m = "mark_principal_reflections c pg"
  from assms obtain ide pg1 pg2 pg3 where
    s1: "identity_element (sort_operations c ?m) = Inr (ide, pg1)" and
    s2: "name_rotations c (name_identity_inversion ide pg1) = Inr pg2" and
    s3: "name_improper_rotations c pg2 = Inr pg3" and
    s4: "pg' = sort_classes c (name_all_reflections c pg3)"
    by (rule name_operations_stages)
  have "frame_ops pg1 pg2"
    using name_identity_inversion_frame name_rotations_frame [OF s2] by (rule frame_ops_trans)
  moreover have "frame_ops pg3 pg'"
    unfolding s4 using name_all_reflections_frame sort_classes_frame by (rule frame_ops_trans)
  ultimately have tail: "frame_ops (sort_operations c ?m) pg'"
    using identity_element_frame [OF s1] name_improper_rotations_frame [OF s3]
    by (blast intro: frame_ops_trans)
  have "frame ?m pg'"
    using frame_sort_operations frame_ops_frame [OF tail] by (rule frame_trans)
  moreover have "operations ?m = operations pg"
    using mark_principal_frame by (rule frame_ops_operations)
  ultimately show ?thesis
    using frame_ops_operations [OF tail] by (simp add: operations_sort_operations)
qed

lemma name_operations_frame: "name_operations c pg = Inr pg' \<Longrightarrow> frame pg pg'"
  using frame_trans [OF frame_ops_frame [OF mark_principal_frame]] name_operations_result
  by blast

lemma new_point_group_simps [simp]:
  "store (new_point_group h ops) = h"
  "operations (new_point_group h ops) = ops"
  "classes (new_point_group h ops) = []"
  "pg_name (new_point_group h ops) = None"
  "generate_elements (new_point_group h ops) = False"
  "identity_cache (new_point_group h ops) = None"
  by (simp_all add: new_point_group_def)

lemma PointGroup_init_phases:
  assumes "PointGroup_init c h ops = Inr pg"
  obtains pg1 pg2 pg3 where
    "check_closure c (new_point_group h ops) = Inr pg1"
    "compute_classes c pg1 = Inr pg2"
    "name_operations c pg2 = Inr pg3"
    "get_name c pg3 = Inr pg"
  using assms by (auto simp: PointGroup_init_def split: sum.splits)

lemma PointGroup_init_sorted:
  assumes "PointGroup_init c h ops = Inr pg"
  shows "\<exists>pg'. frame_ops (new_point_group h ops) pg' \<and> frame pg' pg \<and>
           operations pg = sorted_ops c pg' ops"
proof -
  from assms obtain pg1 pg2 pg3 where
    p1: "check_closure c (new_point_group h ops) = Inr pg1" and
    p2: "compute_classes c pg1 = Inr pg2" and
    p3: "name_operations c pg2 = Inr pg3" and
    p4: "get_name c pg3 = Inr pg"
    by (rule PointGroup_init_phases)
  let ?m = "mark_principal_reflections c pg2"
  have f12: "frame_ops (new_point_group h ops) pg2"
    using check_closure_frame [OF p1] compute_classes_frame [OF p2] by (rule frame_ops_trans)
  have fm: "frame_ops (new_point_group h ops) ?m"
    using f12 mark_principal_frame by (rule frame_ops_trans)
  have "operations pg2 = ops"
    using frame_ops_operations [OF f12] by simp
  then have ops: "operations pg = sorted_ops c ?m ops"
    using name_operations_result [OF p3] frame_ops_operations [OF get_name_frame [OF p4]]
    by simp
  have "frame ?m pg"
    using name_operations_result [OF p3] frame_ops_frame [OF get_name_frame [OF p4]]
    by (blast intro: frame_trans)
  with fm ops show ?thesis by blast
qed

lemma identity_element_ok:
  assumes "\<exists>i \<in> set (operations pg). kind_of pg i = Identity"
  shows "\<exists>i pg'. identity_element pg = Inr (i, pg')"
proof (cases "identity_cache pg")
  case None
  from assms have "find (\<lambda>i. kind_of pg i = Identity) (operations pg) \<noteq> None"
    by (auto simp: find_None_iff)
  with None show ?thesis by (auto simp: identity_element_def)
next
  case (Some i)
  then show ?thesis by (simp add: identity_element_def)
qed

lemma frame_has_kind:
  assumes "frame pg pg'"
  shows "(\<exists>i \<in> set (operations pg'). kind_of pg' i = k) \<longleftrightarrow>
         (\<exists>i \<in> set (operations pg). kind_of pg i = k)"
  using frame_set [OF assms] frame_kind_of [OF assms] by simp

lemma frame_no_rotations: "frame pg pg' \<Longrightarrow> rotations pg = [] \<Longrightarrow> rotations pg' = []"
  using frame_rotations [of pg pg'] by simp

lemma frame_no_improper:
  "frame pg pg' \<Longrightarrow> improper_rotations pg = [] \<Longrightarrow> improper_rotations pg' = []"
  using frame_improper [of pg pg'] by simp

lemma name_operations_no_axes:
  assumes rot: "rotations pg = []" and imp: "improper_rotations pg = []"
    and ide: "\<exists>i \<in> set (operations pg). kind_of pg i = Identity"
  shows "\<exists>pg'. name_operations c pg = Inr pg'"
proof -
  let ?s = "sort_operations c (mark_principal_reflections c pg)"
  have fs: "frame pg ?s"
    using frame_ops_frame [OF mark_principal_frame] frame_sort_operations by (rule frame_trans)
  then have "\<exists>i \<in> set (operations ?s). kind_of ?s i = Identity"
    using ide by (simp add: frame_has_kind)
  then obtain i pg1 where i: "identity_element ?s = Inr (i, pg1)"
    using identity_element_ok by blast
  let ?n = "name_identity_inversion i pg1"
  have "frame_ops ?s ?n"
    using identity_element_frame [OF i] name_identity_inversion_frame by (rule frame_ops_trans)
  then have fn: "frame pg ?n"
    using fs by (blast intro: frame_trans frame_ops_frame)
  have r: "name_rotations c ?n = Inr ?n"
    using frame_no_rotations [OF fn rot] by (simp add: name_rotations_def)
  have "name_improper_rotations c ?n = Inr ?n"
    using frame_no_improper [OF fn imp] by (simp add: name_improper_rotations_def)
  with i r show ?thesis by (simp add: name_operations_def)
qed

lemma claimed_no_rotation_name_frame:
  assumes "frame pg pg'"
  shows "claimed_no_rotation_name pg' = claimed_no_rotation_name pg"
proof -
  have "length (reflections pg') = length (reflections pg)"
    using frame_reflections [OF assms] by (rule mset_eq_length)
  moreover have "(\<exists>e. operations pg' = [e] \<and> kind_of pg' e = Identity)
      \<longleftrightarrow> (\<exists>e. operations pg = [e] \<and> kind_of pg e = Identity)"
  proof -
    have "mset (operations pg') = mset (operations pg)"
      using assms by (simp add: frame_def)
    then have "\<And>e. operations pg' = [e] \<longleftrightarrow> operations pg = [e]"
      by (metis mset.simps(1) mset.simps(2) mset_single_iff_right mset_zero_iff single_is_union)
    then show ?thesis using frame_kind_of [OF assms] by simp
  qed
  ultimately show ?thesis
    using frame_has_kind [OF assms, of Inversion]
    by (simp add: claimed_no_rotation_name_def)
qed

lemma constructor_no_axes:
  assumes phases: "\<exists>pg1. check_closure c (new_point_group h ops) = Inr pg1
                     \<and> (\<exists>pg2. compute_classes c pg1 = Inr pg2)"
    and rot: "\<forall>i \<in> set ops. op_kind (h i) \<noteq> Rotation \<and> op_kind (h i) \<noteq> ImproperRotation"
    and ide: "\<exists>i \<in> set ops. op_kind (h i) = Identity"
  shows "\<exists>pg3. PointGroup_init c h ops
                 = named pg3 (claimed_no_rotation_name (new_point_group h ops))"
proof -
  let ?new = "new_point_group h ops"
  from phases obtain pg1 pg2 where
    p1: "check_closure c ?new = Inr pg1" and p2: "compute_classes c pg1 = Inr pg2"
    by blast
  have f: "frame ?new pg2"
    using check_closure_frame [OF p1] compute_classes_frame [OF p2]
    by (blast intro: frame_ops_trans frame_ops_frame)
  have rot0: "rotations ?new = []" and imp0: "improper_rotations ?new = []"
    using rot by (auto simp: rotations_def improper_rotations_def kind_of_def filter_empty_conv)
  have ide0: "\<exists>i \<in> set (operations ?new). kind_of ?new i = Identity"
    using ide by (simp add: kind_of_def)
  obtain pg3 where p3: "name_operations c pg2 = Inr pg3"
    using name_operations_no_axes [OF frame_no_rotations [OF f rot0] frame_no_improper [OF f imp0]]
      ide0 frame_has_kind [OF f] by blast
  have f3: "frame ?new pg3"
    using f name_operations_frame [OF p3] by (rule frame_trans)
  have "get_name c pg3 = named pg3 (claimed_no_rotation_name pg3)"
    using frame_no_rotations [OF f3 rot0] ide0 frame_has_kind [OF f3]
    by (intro get_name_no_rotation_claimed) auto
  then have "get_name c pg3 = named pg3 (claimed_no_rotation_name ?new)"
    by (simp add: claimed_no_rotation_name_frame [OF f3])
  then have "PointGroup_init c h ops = named pg3 (claimed_no_rotation_name ?new)"
    using p1 p2 p3 by (simp add: PointGroup_init_def)
  then show ?thesis by blast
qed


lemmas closure_eval =
  check_closure_def closure_step_def op_mul_def
  element_with_matrix_def exact_collab_def store_of_def mk_op_def diag3_def mat3_mul_def dot_def
  identity_element_def kind_of_def op_eq_def inverse_conflicts_def set_inverse_def

lemmas classes_eval =
  compute_classes_def classes_step_def class_of_op_def class_contains_def conjugate_into_def
  op_mul_def op_mul_opt_def element_with_matrix_def op_eq_def add_element_def mat3_mul_def dot_def

lemma fixture_E_sigma:
  "\<exists>pg. PointGroup_init (exact_collab dih lt) (store_of [E_op, sigma_xy] E_op) [0, 1] = Inr pg
        \<and> pg_name pg = Some ''C_s''"
proof -
  let ?c = "exact_collab dih lt" and ?h = "store_of [E_op, sigma_xy] E_op"
  have "\<exists>pg1. check_closure ?c (new_point_group ?h [0, 1]) = Inr pg1
          \<and> (\<exists>pg2. compute_classes ?c pg1 = Inr pg2)"
    apply (simp add: closure_eval E_op_def sigma_xy_def)
    apply (simp add: classes_eval)
    done
  then have "\<exists>pg3. PointGroup_init ?c ?h [0, 1]
      = named pg3 (claimed_no_rotation_name (new_point_group ?h [0, 1]))"
    by (rule constructor_no_axes) (simp_all add: store_of_def E_op_def sigma_xy_def mk_op_def)
  moreover have "claimed_no_rotation_name (new_point_group ?h [0, 1]) = Inr ''C_s''"
    by (simp add: claimed_no_rotation_name_def reflections_def kind_of_def store_of_def
        E_op_def sigma_xy_def mk_op_def)
  ultimately show ?thesis by (auto simp: named_def)
qed


lemma fixture_E_i:
  "\<exists>pg. PointGroup_init (exact_collab dih lt) (store_of [E_op, i_op] E_op) [0, 1] = Inr pg
        \<and> pg_name pg = Some ''C_i''"
proof -
  let ?c = "exact_collab dih lt" and ?h = "store_of [E_op, i_op] E_op"
  have "\<exists>pg1. check_closure ?c (new_point_group ?h [0, 1]) = Inr pg1
          \<and> (\<exists>pg2. compute_classes ?c pg1 = Inr pg2)"
    apply (simp add: closure_eval E_op_def i_op_def)
    apply (simp add: classes_eval)
    done
  then have "\<exists>pg3. PointGroup_init ?c ?h [0, 1]
      = named pg3 (claimed_no_rotation_name (new_point_group ?h [0, 1]))"
    by (rule constructor_no_axes) (simp_all add: store_of_def E_op_def i_op_def mk_op_def)
  moreover have "claimed_no_rotation_name (new_point_group ?h [0, 1]) = Inr ''C_i''"
    by (simp add: claimed_no_rotation_name_def reflections_def kind_of_def store_of_def
        E_op_def i_op_def mk_op_def)
  ultimately show ?thesis by (auto simp: named_def)
qed

lemma fixture_E:
  "\<exists>pg. PointGroup_init (exact_collab dih lt) (store_of [E_op] E_op) [0] = Inr pg
        \<and> pg_name pg = Some ''C_1''"
proof -
  let ?c = "exact_collab dih lt" and ?h = "store_of [E_op] E_op"
  have "\<exists>pg1. check_closure ?c (new_point_group ?h [0]) = Inr pg1
          \<and> (\<exists>pg2. compute_classes ?c pg1 = Inr pg2)"
    apply (simp add: closure_eval E_op_def)
    apply (simp add: classes_eval)
    done
  then have "\<exists>pg3. PointGroup_init ?c ?h [0]
      = named pg3 (claimed_no_rotation_name (new_point_group ?h [0]))"
    by (rule constructor_no_axes) (simp_all add: store_of_def E_op_def mk_op_def)
  moreover have "claimed_no_rotation_name (new_point_group ?h [0]) = Inr ''C_1''"
    by (simp add: claimed_no_rotation_name_def reflections_def kind_of_def store_of_def
        E_op_def mk_op_def)
  ultimately show ?thesis by (auto simp: named_def)
qed

text \<open>
  C7. A group without rotations is named "C_s" when it has exactly one reflection,
  otherwise "C_i" when it has an inversion, otherwise "C_1" when it is the identity
  alone, and otherwise the classification fails with UnclassifiableGroup. The
  constructor names the group of E and i "C_i", the group of E and one reflection
  "C_s", and the group of E alone "C_1", whatever the order of the operations and the
  dihedral test are.
\<close>

theorem no_rotation_group_name:
  "(rotations pg = [] \<and> (\<exists>i \<in> set (operations pg). kind_of pg i = Identity) \<longrightarrow>
      get_name c pg = named pg (claimed_no_rotation_name pg))
   \<and> (\<exists>pg1. PointGroup_init (exact_collab dih lt) (store_of [E_op, i_op] E_op) [0, 1] = Inr pg1
          \<and> pg_name pg1 = Some ''C_i'')
   \<and> (\<exists>pg2. PointGroup_init (exact_collab dih lt) (store_of [E_op, sigma_xy] E_op) [0, 1] = Inr pg2
          \<and> pg_name pg2 = Some ''C_s'')
   \<and> (\<exists>pg3. PointGroup_init (exact_collab dih lt) (store_of [E_op] E_op) [0] = Inr pg3
          \<and> pg_name pg3 = Some ''C_1'')"
proof (intro conjI impI)
  assume "rotations pg = [] \<and> (\<exists>i \<in> set (operations pg). kind_of pg i = Identity)"
  then show "get_name c pg = named pg (claimed_no_rotation_name pg)"
    using get_name_no_rotation_claimed by blast
qed (rule fixture_E_i fixture_E_sigma fixture_E)+

theorem no_rotation_group_name_witness:
  "rotations (new_point_group (store_of [E_op, i_op] E_op) [0, 1]) = []
   \<and> (\<exists>i \<in> set (operations (new_point_group (store_of [E_op, i_op] E_op) [0, 1])).
         kind_of (new_point_group (store_of [E_op, i_op] E_op) [0, 1]) i = Identity)
   \<and> get_name (exact_collab (\<lambda>_ _. False) (\<lambda>_ _. False))
        (new_point_group (store_of [E_op, i_op] E_op) [0, 1])
      = Inr ((new_point_group (store_of [E_op, i_op] E_op) [0, 1])\<lparr>pg_name := Some ''C_i''\<rparr>)"
proof -
  let ?pg = "new_point_group (store_of [E_op, i_op] E_op) [0, 1]"
  have r: "rotations ?pg = []"
    by (simp add: rotations_def kind_of_def store_of_def E_op_def i_op_def mk_op_def)
  have i: "\<exists>i \<in> set (operations ?pg). kind_of ?pg i = Identity"
    by (simp add: kind_of_def store_of_def E_op_def mk_op_def)
  have n: "claimed_no_rotation_name ?pg = Inr ''C_i''"
    by (simp add: claimed_no_rotation_name_def reflections_def kind_of_def store_of_def
        E_op_def i_op_def mk_op_def)
  from r i n show ?thesis
    using no_rotation_group_name [of ?pg "exact_collab (\<lambda>_ _. False) (\<lambda>_ _. False)"]
    by (simp add: named_def)
qed

subsection \<open>The operations of a constructed group\<close>

text \<open>
  C10. A successful construction neither inserts nor removes an operation: closure and
  classification leave the list of operations as it was given, naming sorts it in place
  (with the order of operations, on the store as the marking of the principal reflections
  left it), the classification by name leaves it again, and so the operations of the
  group are a permutation of the input; the self-extension flag is still off.
\<close>

theorem construction_keeps_operations:
  assumes "PointGroup_init c h ops = Inr pg"
  shows "mset (operations pg) = mset ops \<and> \<not> generate_elements pg \<and>
         (\<exists>pg1 pg2 pg3.
            check_closure c (new_point_group h ops) = Inr pg1 \<and> operations pg1 = ops \<and>
            compute_classes c pg1 = Inr pg2 \<and> operations pg2 = ops \<and>
            name_operations c pg2 = Inr pg3 \<and>
            operations pg3 = sorted_ops c (mark_principal_reflections c pg2) ops \<and>
            get_name c pg3 = Inr pg \<and> operations pg = operations pg3)"
proof -
  from assms obtain pg1 pg2 pg3 where
    p1: "check_closure c (new_point_group h ops) = Inr pg1" and
    p2: "compute_classes c pg1 = Inr pg2" and
    p3: "name_operations c pg2 = Inr pg3" and
    p4: "get_name c pg3 = Inr pg"
    by (rule PointGroup_init_phases)
  have o1: "operations pg1 = ops"
    using frame_ops_operations [OF check_closure_frame [OF p1]] by simp
  have o2: "operations pg2 = ops"
    using frame_ops_operations [OF compute_classes_frame [OF p2]] o1 by simp
  have o3: "operations pg3 = sorted_ops c (mark_principal_reflections c pg2) ops"
    using name_operations_result [OF p3] o2 by simp
  have o4: "operations pg = operations pg3"
    using get_name_frame [OF p4] by (rule frame_ops_operations)
  have "frame (new_point_group h ops) pg"
    using check_closure_frame [OF p1] compute_classes_frame [OF p2] name_operations_frame [OF p3]
      get_name_frame [OF p4]
    by (blast intro: frame_trans frame_ops_frame)
  then have "mset (operations pg) = mset ops" and "\<not> generate_elements pg"
    by (simp_all add: frame_def)
  with p1 p2 p3 p4 o1 o2 o3 o4 show ?thesis by blast
qed

theorem construction_keeps_operations_witness:
  "\<exists>pg. PointGroup_init (exact_collab (\<lambda>_ _. False) (\<lambda>_ _. False))
           (store_of [E_op, i_op] E_op) [0, 1] = Inr pg
        \<and> mset (operations pg) = mset [0, 1] \<and> \<not> generate_elements pg"
proof -
  obtain pg where
    "PointGroup_init (exact_collab (\<lambda>_ _. False) (\<lambda>_ _. False))
       (store_of [E_op, i_op] E_op) [0, 1] = Inr pg"
    using fixture_E_i by blast
  then show ?thesis
    using construction_keeps_operations by blast
qed


subsection \<open>The two lookups\<close>

lemma find_Some_first:
  "find P xs = Some y \<Longrightarrow> y \<in> set xs \<and> P y"
  by (auto simp: find_Some_iff)

lemma py_matches_refl:
  assumes "\<forall>m. is_same_matrix c m m"
  shows "py_matches c pg x y \<longleftrightarrow> op_eq c pg y x"
  using assms by (auto simp: py_matches_def op_eq_def)

text \<open>
  C9. With tolerance-equality reflexive: when self-extension is off, \<open>element_for\<close> raises
  exactly when no operation of the group equals its argument; when some operation does,
  it returns such an operation of the group and leaves the group as it is; when none
  does and self-extension is on, it appends the argument and returns it.
  \<open>element_with_matrix\<close> raises "group not closed" exactly when no operation of the
  group has the matrix, and otherwise returns an operation of the group that has it.
\<close>

theorem lookups_raise_when_nothing_matches:
  assumes "\<forall>m. is_same_matrix c m m"
  shows "(\<not> generate_elements pg \<longrightarrow>
            (element_for c pg x = Inl OperationNotFound
               \<longleftrightarrow> \<not> (\<exists>y \<in> set (operations pg). op_eq c pg y x)))
       \<and> ((\<exists>y \<in> set (operations pg). op_eq c pg y x) \<longrightarrow>
            (\<exists>y \<in> set (operations pg). op_eq c pg y x \<and> element_for c pg x = Inr (y, pg)))
       \<and> (generate_elements pg \<and> \<not> (\<exists>y \<in> set (operations pg). op_eq c pg y x) \<longrightarrow>
            element_for c pg x = Inr (x, pg\<lparr>operations := operations pg @ [x]\<rparr>))
       \<and> (element_with_matrix c pg mat = Inl GroupNotClosed
            \<longleftrightarrow> \<not> (\<exists>y \<in> set (operations pg). is_same_matrix c (op_matrix (store pg y)) mat))
       \<and> ((\<exists>y \<in> set (operations pg). is_same_matrix c (op_matrix (store pg y)) mat) \<longrightarrow>
            (\<exists>y \<in> set (operations pg). is_same_matrix c (op_matrix (store pg y)) mat
                \<and> element_with_matrix c pg mat = Inr y))"
proof -
  let ?P = "\<lambda>y. op_eq c pg y x"
  have m: "py_matches c pg x = ?P"
    using py_matches_refl [OF assms] by auto
  have none: "find ?P (operations pg) = None \<longleftrightarrow> \<not> (\<exists>y \<in> set (operations pg). ?P y)"
    by (auto simp: find_None_iff)
  have a: "\<not> generate_elements pg \<longrightarrow>
      (element_for c pg x = Inl OperationNotFound \<longleftrightarrow> \<not> (\<exists>y \<in> set (operations pg). ?P y))"
    using none by (auto simp: element_for_def m split: option.splits)
  have b: "(\<exists>y \<in> set (operations pg). ?P y) \<longrightarrow>
      (\<exists>y \<in> set (operations pg). ?P y \<and> element_for c pg x = Inr (y, pg))"
  proof
    assume "\<exists>y \<in> set (operations pg). ?P y"
    then obtain y where y: "find ?P (operations pg) = Some y"
      using none by (cases "find ?P (operations pg)") auto
    then have "y \<in> set (operations pg) \<and> ?P y" by (rule find_Some_first)
    moreover have "element_for c pg x = Inr (y, pg)"
      using y by (simp add: element_for_def m)
    ultimately show "\<exists>y \<in> set (operations pg). ?P y \<and> element_for c pg x = Inr (y, pg)"
      by blast
  qed
  have d: "generate_elements pg \<and> \<not> (\<exists>y \<in> set (operations pg). ?P y) \<longrightarrow>
      element_for c pg x = Inr (x, pg\<lparr>operations := operations pg @ [x]\<rparr>)"
    using none by (auto simp: element_for_def m split: option.splits)
  let ?Q = "\<lambda>y. is_same_matrix c (op_matrix (store pg y)) mat"
  have noneQ: "find ?Q (operations pg) = None \<longleftrightarrow> \<not> (\<exists>y \<in> set (operations pg). ?Q y)"
    by (auto simp: find_None_iff)
  have e: "element_with_matrix c pg mat = Inl GroupNotClosed
      \<longleftrightarrow> \<not> (\<exists>y \<in> set (operations pg). ?Q y)"
    using noneQ by (auto simp: element_with_matrix_def split: option.splits)
  have f: "(\<exists>y \<in> set (operations pg). ?Q y) \<longrightarrow>
      (\<exists>y \<in> set (operations pg). ?Q y \<and> element_with_matrix c pg mat = Inr y)"
  proof
    assume "\<exists>y \<in> set (operations pg). ?Q y"
    then obtain y where y: "find ?Q (operations pg) = Some y"
      using noneQ by (cases "find ?Q (operations pg)") auto
    then have "y \<in> set (operations pg) \<and> ?Q y" by (rule find_Some_first)
    moreover have "element_with_matrix c pg mat = Inr y"
      using y by (simp add: element_with_matrix_def)
    ultimately show "\<exists>y \<in> set (operations pg). ?Q y \<and> element_with_matrix c pg mat = Inr y"
      by blast
  qed
  from a b d e f show ?thesis by blast
qed

theorem lookups_raise_when_nothing_matches_witness:
  "(\<forall>m. is_same_matrix (exact_collab (\<lambda>_ _. False) (\<lambda>_ _. False)) m m)
   \<and> element_for (exact_collab (\<lambda>_ _. False) (\<lambda>_ _. False))
        (new_point_group (store_of [E_op, i_op, sigma_xy] E_op) [0, 1]) 2 = Inl OperationNotFound
   \<and> element_for (exact_collab (\<lambda>_ _. False) (\<lambda>_ _. False))
        (new_point_group (store_of [E_op, i_op, i_op] E_op) [0, 1]) 2
      = Inr (1, new_point_group (store_of [E_op, i_op, i_op] E_op) [0, 1])
   \<and> element_with_matrix (exact_collab (\<lambda>_ _. False) (\<lambda>_ _. False))
        (new_point_group (store_of [E_op, i_op] E_op) [0, 1]) (diag3 1 1 (- 1))
      = Inl GroupNotClosed"
proof -
  let ?c = "exact_collab (\<lambda>_ _. False) (\<lambda>_ _. False)"
  have r: "\<forall>m. is_same_matrix ?c m m" by (simp add: exact_collab_def)
  have 1: "\<not> (\<exists>y \<in> set (operations (new_point_group (store_of [E_op, i_op, sigma_xy] E_op) [0, 1])).
      op_eq ?c (new_point_group (store_of [E_op, i_op, sigma_xy] E_op) [0, 1]) y 2)"
    by (simp add: op_eq_def exact_collab_def store_of_def E_op_def i_op_def sigma_xy_def
        mk_op_def diag3_def)
  have 2: "\<not> (\<exists>y \<in> set (operations (new_point_group (store_of [E_op, i_op] E_op) [0, 1])).
      is_same_matrix ?c (op_matrix (store (new_point_group (store_of [E_op, i_op] E_op) [0, 1]) y))
        (diag3 1 1 (- 1)))"
    by (simp add: exact_collab_def store_of_def E_op_def i_op_def mk_op_def diag3_def)
  have 3: "element_for ?c (new_point_group (store_of [E_op, i_op, i_op] E_op) [0, 1]) 2
      = Inr (1, new_point_group (store_of [E_op, i_op, i_op] E_op) [0, 1])"
    by (simp add: element_for_def py_matches_def op_eq_def exact_collab_def store_of_def
        E_op_def i_op_def mk_op_def diag3_def)
  show ?thesis
    using r 1 2 3
      lookups_raise_when_nothing_matches [OF r,
        of "new_point_group (store_of [E_op, i_op, sigma_xy] E_op) [0, 1]" 2
           "diag3 1 1 (- 1)"]
      lookups_raise_when_nothing_matches [OF r,
        of "new_point_group (store_of [E_op, i_op] E_op) [0, 1]" 2 "diag3 1 1 (- 1)"]
    by simp
qed


subsection \<open>Groups with one principal axis\<close>

lemma get_name_axial_claimed:
  "get_name_axial c r0 pg = named pg (claimed_axial_name c pg r0)"
  by (simp add: get_name_axial_def claimed_axial_name_def named_def set_group_name_def Let_def
      list_ex_iff is_principal_reflection_def)

text \<open>
  C6. In a group with at least one rotation and fewer than two rotations of exponent 1
  and order above 2, with n the order of the first rotation and the count of the
  rotations of order 2 perpendicular to its axis: when the count is n, the name is
  "D_nh" if some reflection is principal, else "D_nd" if there are n reflections, else
  "D_n" if there is no reflection, else UnclassifiableGroup is raised; otherwise the name
  is "C_nh" if some reflection is principal, else "C_nv" if there are n reflections, else
  "S_2n" if some improper rotation has order 2n, else "C_n".
\<close>

theorem axial_group_name:
  assumes "rotations pg = r0 # rest"
    and "length (filter (\<lambda>rot. op_n (store pg rot) > 2 \<and> op_exponent (store pg rot) = 1)
                   (rotations pg)) < 2"
  shows "get_name c pg = named pg (claimed_axial_name c pg r0)"
  using assms by (simp add: get_name_def get_name_axial_claimed)

lemma str_int_2 [simp]: "str_int 2 = ''2''"
  by (simp add: str_int_def str_nat.simps digit_char_def)

theorem axial_group_name_witness:
  "rotations (new_point_group (store_of [E_op, C2_z] E_op) [0, 1]) = [1]
   \<and> length (filter (\<lambda>rot. op_n (store (new_point_group (store_of [E_op, C2_z] E_op) [0, 1]) rot) > 2
         \<and> op_exponent (store (new_point_group (store_of [E_op, C2_z] E_op) [0, 1]) rot) = 1)
         (rotations (new_point_group (store_of [E_op, C2_z] E_op) [0, 1]))) < 2
   \<and> get_name (exact_collab (\<lambda>_ _. False) (\<lambda>_ _. False))
        (new_point_group (store_of [E_op, C2_z] E_op) [0, 1])
      = Inr ((new_point_group (store_of [E_op, C2_z] E_op) [0, 1])\<lparr>pg_name := Some ''C_2''\<rparr>)"
proof -
  let ?pg = "new_point_group (store_of [E_op, C2_z] E_op) [0, 1]"
  let ?c = "exact_collab (\<lambda>_ _. False) (\<lambda>_ _. False)"
  have r: "rotations ?pg = [1]"
    by (simp add: rotations_def kind_of_def store_of_def E_op_def C2_z_def mk_op_def)
  have l: "length (filter (\<lambda>rot. op_n (store ?pg rot) > 2 \<and> op_exponent (store ?pg rot) = 1)
                     (rotations ?pg)) < 2"
    by (simp add: rotations_def kind_of_def store_of_def E_op_def C2_z_def mk_op_def)
  have n: "claimed_axial_name ?c ?pg 1 = Inr ''C_2''"
    by (simp add: claimed_axial_name_def rotations_def reflections_def improper_rotations_def kind_of_def
        store_of_def E_op_def C2_z_def mk_op_def exact_collab_def dot_def)
  from r l n show ?thesis
    using axial_group_name [of ?pg 1 "[]" ?c] by (simp add: named_def)
qed


subsection \<open>Closure\<close>

lemma op_mul_Inr:
  assumes "op_mul c pg a b = Inr p"
  shows "p \<in> set (operations pg) \<and>
         is_same_matrix c (op_matrix (store pg p))
           (mat_mul c (op_matrix (store pg a)) (op_matrix (store pg b)))"
proof -
  from assms have "find (\<lambda>i. is_same_matrix c (op_matrix (store pg i))
      (mat_mul c (op_matrix (store pg a)) (op_matrix (store pg b)))) (operations pg) = Some p"
    by (auto simp: op_mul_def element_with_matrix_def split: option.splits)
  then show ?thesis by (rule find_Some_first)
qed

lemma op_mul_Inl: "op_mul c pg a b = Inl e \<Longrightarrow> e = GroupNotClosed"
  by (auto simp: op_mul_def element_with_matrix_def split: option.splits)

lemma op_mul_matched: "op_mul c pg a b = Inr p \<Longrightarrow> product_matched c pg a b"
  using op_mul_Inr unfolding product_matched_def by blast

lemma op_mul_unmatched:
  "\<not> product_matched c pg a b \<Longrightarrow> op_mul c pg a b = Inl GroupNotClosed"
  using op_mul_matched [of c pg a b] op_mul_Inl [of c pg a b]
  by (cases "op_mul c pg a b") auto

















subsection \<open>Principal reflections\<close>

lemma flag_set_principal:
  "op_principal_reflection (store (set_principal x pg) y)
     \<longleftrightarrow> y = x \<or> op_principal_reflection (store pg y)"
  by (simp add: set_principal_def)

lemma mark_low_order:
  assumes "principal_rotations c pg = r0 # rs" and "op_n (store pg r0) \<le> 2"
  shows "op_principal_reflection (store (mark_principal_reflections c pg) x)
     \<longleftrightarrow> op_principal_reflection (store pg x)
         \<or> find (\<lambda>y. is_same_axis c (op_axis (store pg y)) (op_axis (store pg r0)))
               (reflections pg) = Some x"
  using assms
  by (auto simp: mark_principal_reflections_def flag_set_principal split: option.splits)

lemma C2h_x_principal_rotations:
  "principal_rotations (exact_collab dih lt) C2h_x = [1]"
  by (simp add: principal_rotations_def C2h_x_def rotations_def kind_of_def store_of_def
      E_op_def C2_x_def i_op_def sigma_yz_def mk_op_def sorted_ops_def sort_lt_def)

lemma C2h_x_reflections: "reflections C2h_x = [3]"
  by (simp add: C2h_x_def reflections_def kind_of_def store_of_def
      E_op_def C2_x_def i_op_def sigma_yz_def mk_op_def)

lemma C2h_x_marked:
  "op_principal_reflection (store (mark_principal_reflections (exact_collab dih lt) C2h_x) 3)"
  by (simp add: mark_principal_reflections_def C2h_x_principal_rotations C2h_x_reflections
      flag_set_principal)
     (simp add: C2h_x_def store_of_def C2_x_def sigma_yz_def mk_op_def exact_collab_def cross_def
      flag_set_principal)

lemma C2h_x_not_claimed:
  "\<not> claimed_principal_flag (exact_collab dih lt) C2h_x 3"
  by (simp add: claimed_principal_flag_def C2h_x_def store_of_def sigma_yz_def mk_op_def
      exact_collab_def cross_def)


lemma C2h_x_constructed:
  "isl (PointGroup_init (exact_collab (\<lambda>_ _. False) (\<lambda>_ _. False))
          (store_of [E_op, C2_x, i_op, sigma_yz] E_op) [0, 1, 2, 3]) = False
   \<and> op_principal_reflection
        (store (projr (PointGroup_init (exact_collab (\<lambda>_ _. False) (\<lambda>_ _. False))
                  (store_of [E_op, C2_x, i_op, sigma_yz] E_op) [0, 1, 2, 3])) 3)
   \<and> pg_name (projr (PointGroup_init (exact_collab (\<lambda>_ _. False) (\<lambda>_ _. False))
                  (store_of [E_op, C2_x, i_op, sigma_yz] E_op) [0, 1, 2, 3])) = Some ''C_2h''"
  by code_simp

text \<open>
  C2 holds of what the comment of line 228 announces ("Otherwise, just choose the Z
  axis"), not of lines 229-232, which compare the axis of a reflection with the axis of
  the first principal rotation, whatever that axis is. In the group of E, the half turn
  about x, the inversion and the reflection in the yz plane, the first rotations have
  order 2, no rotation and no reflection is along the canonical z axis, so that by the
  claim no reflection is principal; the marking makes the reflection principal all the
  same, and so does the constructor.
\<close>

theorem reflection_flagged_without_z_axis:
  "principal_rotations (exact_collab (\<lambda>_ _. False) (\<lambda>_ _. False)) C2h_x = [1]
   \<and> op_n (store C2h_x 1) \<le> 2
   \<and> reflections C2h_x = [3]
   \<and> \<not> claimed_principal_flag (exact_collab (\<lambda>_ _. False) (\<lambda>_ _. False)) C2h_x 3
   \<and> op_principal_reflection
        (store (mark_principal_reflections (exact_collab (\<lambda>_ _. False) (\<lambda>_ _. False)) C2h_x) 3)
   \<and> op_principal_reflection
        (store (projr (PointGroup_init (exact_collab (\<lambda>_ _. False) (\<lambda>_ _. False))
                  (store_of [E_op, C2_x, i_op, sigma_yz] E_op) [0, 1, 2, 3])) 3)"
  using C2h_x_principal_rotations C2h_x_reflections C2h_x_not_claimed C2h_x_marked
    C2h_x_constructed
  by (simp add: C2h_x_def store_of_def C2_x_def mk_op_def)

subsection \<open>The coordinate labels of rotations\<close>

lemma D2_names:
  "isl (PointGroup_init (exact_collab (\<lambda>_ _. False) (\<lambda>_ _. False)) D2_store [0, 1, 2, 3]) = False
   \<and> map (\<lambda>i. op_name (store (projr (PointGroup_init
              (exact_collab (\<lambda>_ _. False) (\<lambda>_ _. False)) D2_store [0, 1, 2, 3])) i)) [0, 1, 2, 3]
      = [Some ''E'', Some ''C_2(z)'', Some (''C_2'' @ primes 1), Some ''C_2(x)'']"
  by code_simp

lemma D2_y_axis:
  "is_same_axis (exact_collab (\<lambda>_ _. False) (\<lambda>_ _. False)) (op_axis (D2_store 2)) (0, 1, 0)
   \<and> \<not> is_same_axis (exact_collab (\<lambda>_ _. False) (\<lambda>_ _. False)) (op_axis (D2_store 2)) (0, 1, 1)"
  by (simp add: D2_store_def store_of_def C2_y_def mk_op_def exact_collab_def cross_def)

text \<open>
  C3 holds of the improper rotations and of the reflections, not of the rotations: line
  259 compares the axis of a rotation with (0,1,1), where lines 293 and 321 compare
  with (0,1,0). In the group of E and the half turns about z, y and x, the half turn
  about y, whose axis is the canonical y direction, is not named "C_2(y)": it gets a
  prime, "C_2'", while its neighbours are named "C_2(z)" and "C_2(x)".
\<close>

theorem rotation_about_y_gets_prime:
  "op_exponent (D2_store 2) = 1
   \<and> is_same_axis (exact_collab (\<lambda>_ _. False) (\<lambda>_ _. False)) (op_axis (D2_store 2)) (0, 1, 0)
   \<and> isl (PointGroup_init (exact_collab (\<lambda>_ _. False) (\<lambda>_ _. False)) D2_store [0, 1, 2, 3]) = False
   \<and> op_name (store (projr (PointGroup_init
          (exact_collab (\<lambda>_ _. False) (\<lambda>_ _. False)) D2_store [0, 1, 2, 3])) 2)
      = Some (''C_2'' @ primes 1)
   \<and> op_name (store (projr (PointGroup_init
          (exact_collab (\<lambda>_ _. False) (\<lambda>_ _. False)) D2_store [0, 1, 2, 3])) 2)
      \<noteq> Some ''C_2(y)''"
proof -
  have "op_exponent (D2_store 2) = 1"
    by (simp add: D2_store_def store_of_def C2_y_def mk_op_def)
  moreover have "''C_2'' @ primes 1 \<noteq> ''C_2(y)''"
    by (simp add: primes_def)
  ultimately show ?thesis
    using D2_names D2_y_axis by simp
qed

subsection \<open>Inverses\<close>












lemma inverses_kept_refl [simp]: "inverses_kept pg pg"
  by (simp add: inverses_kept_def)


lemma inverses_kept_store: "store pg' = store pg \<Longrightarrow> inverses_kept pg pg'"
  by (simp add: inverses_kept_def)


lemma inverses_kept_set_principal [simp]: "inverses_kept pg (set_principal a pg)"
  by (simp add: inverses_kept_def set_principal_def)






























text \<open>
  Why the last part needs different matrices: with the identity given twice, the slot
  of the first identity holds the second one, whose own slot holds itself.
\<close>

lemma duplicate_identity_inverses:
  "isl (PointGroup_init (exact_collab (\<lambda>_ _. False) (\<lambda>_ _. False))
          (store_of [E_op, E_op, i_op] E_op) [0, 1, 2]) = False
   \<and> op_inverse (store (projr (PointGroup_init (exact_collab (\<lambda>_ _. False) (\<lambda>_ _. False))
          (store_of [E_op, E_op, i_op] E_op) [0, 1, 2])) 0) = Some 1
   \<and> op_inverse (store (projr (PointGroup_init (exact_collab (\<lambda>_ _. False) (\<lambda>_ _. False))
          (store_of [E_op, E_op, i_op] E_op) [0, 1, 2])) 1) = Some 1"
  by code_simp




end
